theory Spec2Isabelle
  imports Main "HOL-Library.Sublist" "HOL-Library.Multiset" "HOL-Library.Option_ord"
    "HOL-Library.Product_Lexorder"
begin

section \<open>Python values\<close>

text \<open>
  A Python \<open>str\<close> is a sequence of Unicode code points; a code point is a natural number.
  Slicing (\<open>s[:200]\<close>) and \<open>len\<close> count code points, so the model does too.
  \<open>ustr_of\<close> reads an ASCII literal of the source as such a sequence.
\<close>

type_synonym ustr = "nat list"

definition ustr_of :: "string \<Rightarrow> ustr" where
  "ustr_of s = map of_char s"

text \<open>
  The values that \<open>json.loads\<close> produces (Flask's \<open>request.get_json()\<close> and
  \<open>response.json()\<close> of \<open>requests\<close>). A dict is an association list read with \<open>map_of\<close>.
  JSON numbers with a fraction or an exponent (Python floats) are outside the model.
\<close>

datatype pyval =
    PNone
  | PBool bool
  | PInt int
  | PStr ustr
  | PList "pyval list"
  | PDict "(ustr \<times> pyval) list"

text \<open>
  Exceptions. Every constructor stands for a subclass of Python's \<open>Exception\<close>, which is
  what the three \<open>except Exception\<close> handlers of app.py catch. \<open>Raised msg\<close> is
  \<open>raise Exception(msg)\<close> of the source itself; \<open>LibraryError name\<close> is an exception
  raised inside a library (requests, the genai SDK, werkzeug, SQLAlchemy): a timeout, a
  connection failure, a JSON decoding error, a rejected statement. \<open>OverflowError\<close> and
  \<open>UnicodeEncodeError\<close> are what Python's sqlite3 driver raises for a parameter it cannot
  bind.
\<close>

datatype exn = TypeError | KeyError | IndexError | AttributeError
  | OverflowError | UnicodeEncodeError
  | Raised ustr | LibraryError ustr

definition and_then :: "exn + 'a \<Rightarrow> ('a \<Rightarrow> exn + 'b) \<Rightarrow> exn + 'b" where
  "and_then r f = (case r of Inl e \<Rightarrow> Inl e | Inr v \<Rightarrow> f v)"

text \<open>Truth value testing (\<open>if x\<close>, \<open>x or y\<close>, \<open>not x\<close>).\<close>

fun truthy :: "pyval \<Rightarrow> bool" where
  "truthy PNone = False"
| "truthy (PBool b) = b"
| "truthy (PInt i) = (i \<noteq> 0)"
| "truthy (PStr s) = (s \<noteq> [])"
| "truthy (PList xs) = (xs \<noteq> [])"
| "truthy (PDict kvs) = (kvs \<noteq> [])"

text \<open>\<open>xs in ys\<close> on two strings: \<open>xs\<close> occurs in \<open>ys\<close> as a contiguous run.\<close>

fun contains :: "ustr \<Rightarrow> ustr \<Rightarrow> bool" where
  "contains xs [] = (xs = [])"
| "contains xs (y # ys) = (prefix xs (y # ys) \<or> contains xs ys)"

text \<open>
  \<open>k in v\<close> for a string \<open>k\<close>: a key of a dict, an element of a list, a substring of a
  string; \<open>None\<close>, booleans and integers are not iterable.
\<close>

fun py_in :: "ustr \<Rightarrow> pyval \<Rightarrow> exn + bool" where
  "py_in k (PDict kvs) = Inr (map_of kvs k \<noteq> None)"
| "py_in k (PList xs) = Inr (PStr k \<in> set xs)"
| "py_in k (PStr s) = Inr (contains k s)"
| "py_in k PNone = Inl TypeError"
| "py_in k (PBool b) = Inl TypeError"
| "py_in k (PInt i) = Inl TypeError"

text \<open>\<open>v[k]\<close> for a string \<open>k\<close>: only a dict can be subscripted by a string.\<close>

fun getitem_str :: "pyval \<Rightarrow> ustr \<Rightarrow> exn + pyval" where
  "getitem_str (PDict kvs) k = (case map_of kvs k of Some v \<Rightarrow> Inr v | None \<Rightarrow> Inl KeyError)"
| "getitem_str PNone k = Inl TypeError"
| "getitem_str (PBool b) k = Inl TypeError"
| "getitem_str (PInt i) k = Inl TypeError"
| "getitem_str (PStr s) k = Inl TypeError"
| "getitem_str (PList xs) k = Inl TypeError"

text \<open>
  \<open>v[0]\<close>: the first element of a list, the first character of a string (a string of
  length one); a dict read from JSON has string keys only, so \<open>0\<close> is a missing key.
\<close>

fun getitem_zero :: "pyval \<Rightarrow> exn + pyval" where
  "getitem_zero (PList []) = Inl IndexError"
| "getitem_zero (PList (x # xs)) = Inr x"
| "getitem_zero (PStr []) = Inl IndexError"
| "getitem_zero (PStr (c # cs)) = Inr (PStr [c])"
| "getitem_zero (PDict kvs) = Inl KeyError"
| "getitem_zero PNone = Inl TypeError"
| "getitem_zero (PBool b) = Inl TypeError"
| "getitem_zero (PInt i) = Inl TypeError"

fun py_len :: "pyval \<Rightarrow> exn + nat" where
  "py_len (PList xs) = Inr (length xs)"
| "py_len (PStr s) = Inr (length s)"
| "py_len (PDict kvs) = Inr (length kvs)"
| "py_len PNone = Inl TypeError"
| "py_len (PBool b) = Inl TypeError"
| "py_len (PInt i) = Inl TypeError"

text \<open>
  \<open>str.strip()\<close> removes the characters for which \<open>str.isspace\<close> holds from both ends:
  the code points below are CPython's table of whitespace characters.
\<close>

definition isspace :: "nat \<Rightarrow> bool" where
  "isspace c = (c \<in> {9, 10, 11, 12, 13, 28, 29, 30, 31, 32, 133, 160, 5760,
      8192, 8193, 8194, 8195, 8196, 8197, 8198, 8199, 8200, 8201, 8202,
      8232, 8233, 8239, 8287, 12288})"

definition strip :: "ustr \<Rightarrow> ustr" where
  "strip s = rev (dropWhile isspace (rev (dropWhile isspace s)))"

text \<open>\<open>v.strip()\<close>: only a string has the method.\<close>

fun strip_method :: "pyval \<Rightarrow> exn + ustr" where
  "strip_method (PStr s) = Inr (strip s)"
| "strip_method PNone = Inl AttributeError"
| "strip_method (PBool b) = Inl AttributeError"
| "strip_method (PInt i) = Inl AttributeError"
| "strip_method (PList xs) = Inl AttributeError"
| "strip_method (PDict kvs) = Inl AttributeError"

text \<open>
  \<open>v[:200]\<close>: a string and a list are sliced; \<open>None\<close>, booleans and integers are not
  subscriptable (TypeError); a dict raises too (TypeError "unhashable type: 'slice'"
  before Python 3.12, KeyError from 3.12 on; the model keeps the former).
\<close>

fun slice_200 :: "pyval \<Rightarrow> exn + pyval" where
  "slice_200 (PStr s) = Inr (PStr (take 200 s))"
| "slice_200 (PList xs) = Inr (PList (take 200 xs))"
| "slice_200 (PDict kvs) = Inl TypeError"
| "slice_200 PNone = Inl TypeError"
| "slice_200 (PBool b) = Inl TypeError"
| "slice_200 (PInt i) = Inl TypeError"

text \<open>Decimal digits of a natural number (\<open>str(n)\<close>, \<open>%d\<close>).\<close>

fun str_nat :: "nat \<Rightarrow> ustr" where
  "str_nat n = (if n < 10 then [48 + n] else str_nat (n div 10) @ [48 + n mod 10])"

declare str_nat.simps [simp del]

section \<open>The prompt builder\<close>

definition SYSTEM_INSTRUCTIONS :: ustr where
  "SYSTEM_INSTRUCTIONS = ustr_of (
     ''You are a friendly AI assistant like ChatGPT.'' @ [CHR 0x0A] @
     ''Rules:'' @ [CHR 0x0A] @
     ''- Give clean, well-spaced answers'' @ [CHR 0x0A] @
     ''- Use bullet points or tables when useful'' @ [CHR 0x0A] @
     ''- Do NOT use # symbols'' @ [CHR 0x0A] @
     ''- Keep answers clear and readable'' @ [CHR 0x0A] @
     ''- Be concise and helpful'' @ [CHR 0x0A])"

definition build_prompt :: "ustr \<Rightarrow> ustr" where
  "build_prompt user_message =
     SYSTEM_INSTRUCTIONS @ ustr_of ([CHR 0x0A, CHR 0x0A] @ ''User:'' @ [CHR 0x0A]) @ user_message"

section \<open>The provider-fallback caller\<close>

text \<open>
  What \<open>generate_response\<close> reads from outside: the environment variables, whether the
  import of the genai library succeeded, and what each provider does when called with a
  prompt.

  \<open>requests.post\<close> either raises (timeout, network failure) or returns a response with a
  status code, a text and the result of \<open>response.json()\<close>, which raises on a body that
  is not JSON.

  The genai call either raises when the client is built, or raises in
  \<open>generate_content\<close>, or returns an object \<open>resp\<close>; of that object the code reads the
  attribute \<open>text\<close> and the expression \<open>resp.candidates[0].output\<close>, each of which yields
  a value or raises.
\<close>

datatype http_outcome =
    PostRaises exn
  | HttpResponse nat ustr "exn + pyval"

datatype genai_outcome =
    ClientRaises exn
  | GenerateRaises exn
  | GenaiResponse "exn + pyval" "exn + pyval"

record providers =
  OPENROUTER_API_KEY :: "ustr option"
  GEMINI_API_KEY :: "ustr option"
  HAS_GENAI :: bool
  requests_post :: "ustr \<Rightarrow> http_outcome"
  generate_content :: "ustr \<Rightarrow> genai_outcome"

text \<open>What \<open>generate_response\<close> does to the outside: requests issued and warnings logged, in order.\<close>

datatype event =
    OpenRouterRequest ustr
  | GenaiRequest ustr
  | WarnOpenRouterApiError ustr
  | WarnOpenRouterFailed exn
  | WarnGeminiFailed exn

text \<open>\<open>if os.getenv(NAME)\<close>: the variable is set and not empty.\<close>

fun getenv_truthy :: "ustr option \<Rightarrow> bool" where
  "getenv_truthy None = False"
| "getenv_truthy (Some s) = (s \<noteq> [])"

text \<open>
  Lines 121-123: \<open>data = response.json()\<close>, the test on \<open>"choices"\<close> and the return.
  \<open>Inr (Some s)\<close> is \<open>return s\<close>; \<open>Inr None\<close> is reaching the end of the \<open>if\<close> without
  returning; \<open>Inl e\<close> is an exception.
\<close>

definition first_choice :: "exn + pyval \<Rightarrow> exn + ustr option" where
  "first_choice js =
     and_then js (\<lambda>data.
     and_then (py_in (ustr_of ''choices'') data) (\<lambda>has_choices.
       if has_choices then
         and_then (getitem_str data (ustr_of ''choices'')) (\<lambda>choices.
         and_then (py_len choices) (\<lambda>n.
           if 0 < n then
             and_then (getitem_zero choices) (\<lambda>choice.
             and_then (getitem_str choice (ustr_of ''message'')) (\<lambda>message.
             and_then (getitem_str message (ustr_of ''content'')) (\<lambda>content.
             and_then (strip_method content) (\<lambda>s. Inr (Some s)))))
           else Inr None))
       else Inr None))"

text \<open>The body of the first \<open>try\<close> (lines 94-126).\<close>

definition openrouter_try :: "providers \<Rightarrow> ustr \<Rightarrow> (exn + ustr option) \<times> event list" where
  "openrouter_try p prompt =
     (case requests_post p prompt of
        PostRaises e \<Rightarrow> (Inl e, [OpenRouterRequest prompt])
      | HttpResponse status_code text js \<Rightarrow>
          if status_code = 200 then (first_choice js, [OpenRouterRequest prompt])
          else (Inl (Raised (ustr_of ''OpenRouter returned status '' @ str_nat status_code)),
                [OpenRouterRequest prompt, WarnOpenRouterApiError text]))"

text \<open>
  \<open>getattr(resp, "text", None)\<close>: an AttributeError of the attribute access becomes
  \<open>None\<close>, any other exception goes on.
\<close>

fun getattr_or_None :: "exn + pyval \<Rightarrow> exn + pyval" where
  "getattr_or_None (Inr v) = Inr v"
| "getattr_or_None (Inl e) = (if e = AttributeError then Inr PNone else Inl e)"

text \<open>The body of the second \<open>try\<close> (lines 134-145).\<close>

definition gemini_try :: "providers \<Rightarrow> ustr \<Rightarrow> (exn + ustr) \<times> event list" where
  "gemini_try p prompt =
     (case generate_content p prompt of
        ClientRaises e \<Rightarrow> (Inl e, [])
      | GenerateRaises e \<Rightarrow> (Inl e, [GenaiRequest prompt])
      | GenaiResponse resp_text candidate_output \<Rightarrow>
          (and_then (getattr_or_None resp_text) (\<lambda>text.
           and_then (if \<not> truthy text then candidate_output else Inr text) strip_method),
           [GenaiRequest prompt]))"

text \<open>
  Lines 92-129: the first provider with its handler. \<open>Some s\<close> is \<open>return s\<close>, \<open>None\<close>
  is going on to line 131.
\<close>

definition openrouter_step :: "providers \<Rightarrow> ustr \<Rightarrow> ustr option \<times> event list" where
  "openrouter_step p prompt =
     (if getenv_truthy (OPENROUTER_API_KEY p) then
        (case openrouter_try p prompt of
           (Inl e, evs) \<Rightarrow> (None, evs @ [WarnOpenRouterFailed e])
         | (Inr r, evs) \<Rightarrow> (r, evs))
      else (None, []))"

text \<open>Lines 132-148: the second provider with its handler.\<close>

definition gemini_step :: "providers \<Rightarrow> ustr \<Rightarrow> ustr option \<times> event list" where
  "gemini_step p prompt =
     (if HAS_GENAI p \<and> getenv_truthy (GEMINI_API_KEY p) then
        (case gemini_try p prompt of
           (Inl e, evs) \<Rightarrow> (None, evs @ [WarnGeminiFailed e])
         | (Inr s, evs) \<Rightarrow> (Some s, evs))
      else (None, []))"

definition UNAVAILABLE :: ustr where
  "UNAVAILABLE = ustr_of ''All AI providers are currently unavailable. Please try again later.''"

text \<open>
  \<open>generate_response\<close>: the result is \<open>Inr s\<close> for \<open>return s\<close> and \<open>Inl e\<close> for an
  exception that leaves the function, with the events in the order they happen.
\<close>

definition generate_response :: "providers \<Rightarrow> ustr \<Rightarrow> (exn + ustr) \<times> event list" where
  "generate_response p user_message =
     (let prompt = build_prompt user_message in
      case openrouter_step p prompt of
        (Some s, evs1) \<Rightarrow> (Inr s, evs1)
      | (None, evs1) \<Rightarrow>
          (case gemini_step p prompt of
             (Some s, evs2) \<Rightarrow> (Inr s, evs1 @ evs2)
           | (None, evs2) \<Rightarrow> (Inr UNAVAILABLE, evs1 @ evs2)))"

section \<open>The store\<close>

text \<open>
  A \<open>datetime\<close> without time zone, as \<open>datetime.utcnow()\<close> returns it: year, month, day,
  hour, minute, second, microsecond. Two of them compare field by field from the left,
  which is the order of pairs.
\<close>

type_synonym datetime = "nat \<times> nat \<times> nat \<times> nat \<times> nat \<times> nat \<times> nat"

text \<open>models.py: the two tables. \<open>title\<close> and \<open>created_at\<close> are nullable columns.\<close>

record Chat =
  Chat_id :: int
  Chat_title :: "ustr option"
  Chat_created_at :: "datetime option"

record Message =
  Message_id :: int
  Message_chat_id :: int
  Message_role :: ustr
  Message_content :: ustr
  Message_created_at :: "datetime option"

record database =
  chats :: "Chat list"
  messages :: "Message list"

text \<open>\<open>%0wd\<close>: decimal digits, padded with zeros on the left to the width \<open>w\<close>.\<close>

definition zero_padded :: "nat \<Rightarrow> nat \<Rightarrow> ustr" where
  "zero_padded w n = replicate (w - length (str_nat n)) 48 @ str_nat n"

text \<open>\<open>datetime.isoformat()\<close>: the microseconds are printed when they are not zero.\<close>

fun isoformat :: "datetime \<Rightarrow> ustr" where
  "isoformat (year, month, day, hour, minute, second, microsecond) =
     zero_padded 4 year @ ustr_of ''-'' @ zero_padded 2 month @ ustr_of ''-'' @ zero_padded 2 day
     @ ustr_of ''T'' @ zero_padded 2 hour @ ustr_of '':'' @ zero_padded 2 minute
     @ ustr_of '':'' @ zero_padded 2 second
     @ (if microsecond = 0 then [] else ustr_of ''.'' @ zero_padded 6 microsecond)"

fun created_at_json :: "datetime option \<Rightarrow> pyval" where
  "created_at_json None = PNone"
| "created_at_json (Some t) = PStr (isoformat t)"

fun title_json :: "ustr option \<Rightarrow> pyval" where
  "title_json None = PNone"
| "title_json (Some t) = PStr t"

definition Chat_to_dict :: "Chat \<Rightarrow> pyval" where
  "Chat_to_dict c = PDict
     [(ustr_of ''id'', PInt (Chat_id c)),
      (ustr_of ''title'', title_json (Chat_title c)),
      (ustr_of ''created_at'', created_at_json (Chat_created_at c))]"

definition Message_to_dict :: "Message \<Rightarrow> pyval" where
  "Message_to_dict m = PDict
     [(ustr_of ''id'', PInt (Message_id m)),
      (ustr_of ''role'', PStr (Message_role m)),
      (ustr_of ''content'', PStr (Message_content m)),
      (ustr_of ''created_at'', created_at_json (Message_created_at m))]"

text \<open>
  \<open>ORDER BY created_at ASC\<close> and \<open>DESC\<close>. A missing timestamp sorts below every
  timestamp, as in SQLite. SQL leaves the order of rows with equal keys to the engine; the
  model keeps them in table order (ascending) and in reverse table order (descending).
\<close>

definition order_by_asc :: "('a \<Rightarrow> datetime option) \<Rightarrow> 'a list \<Rightarrow> 'a list" where
  "order_by_asc key rows = sort_key key rows"

definition order_by_desc :: "('a \<Rightarrow> datetime option) \<Rightarrow> 'a list \<Rightarrow> 'a list" where
  "order_by_desc key rows = rev (sort_key key rows)"

text \<open>
  The store is the default one of line 32, SQLite through Python's sqlite3 driver. The
  driver binds an integer parameter only when it fits a signed 64-bit integer and raises
  OverflowError otherwise; it binds a string only when the string can be encoded as UTF-8,
  which a surrogate code point (U+D800 to U+DFFF) prevents, and raises UnicodeEncodeError
  otherwise.
\<close>

definition sqlite_int :: "int \<Rightarrow> bool" where
  "sqlite_int i = (- (2 ^ 63) \<le> i \<and> i < 2 ^ 63)"

definition has_surrogate :: "ustr \<Rightarrow> bool" where
  "has_surrogate s = list_ex (\<lambda>c. 55296 \<le> c \<and> c \<le> 57343) s"

text \<open>
  \<open>Chat.query.get(i)\<close> for an integer \<open>i\<close>: the row with that primary key, none, or the
  driver's exception when \<open>i\<close> cannot be bound.
\<close>

definition Chat_get :: "database \<Rightarrow> int \<Rightarrow> exn + Chat option" where
  "Chat_get db i =
     (if sqlite_int i then Inr (find (\<lambda>c. Chat_id c = i) (chats db)) else Inl OverflowError)"

text \<open>The key of a new row of an integer primary key column: one above the largest, or 1.\<close>

definition next_id :: "int list \<Rightarrow> int" where
  "next_id ids = (if ids = [] then 1 else fold max (tl ids) (hd ids) + 1)"

section \<open>The endpoints\<close>

text \<open>A response: the status code and the JSON body given to \<open>jsonify\<close>.\<close>

datatype response = Response nat pyval

text \<open>GET /chats (lines 70-73).\<close>

definition list_chats :: "database \<Rightarrow> response" where
  "list_chats db =
     (let cs = order_by_desc Chat_created_at (chats db)
      in Response 200 (PList (map Chat_to_dict cs)))"

text \<open>
  GET /chats/<int:chat_id> (lines 75-81). The route converter accepts decimal digits only,
  of any length, so \<open>chat_id\<close> is a natural number. \<open>chat.messages\<close> are the messages
  whose \<open>chat_id\<close> is the chat's \<open>id\<close>. The function has no \<open>try\<close>: \<open>Inl e\<close> is an
  exception that leaves it.
\<close>

definition get_chat :: "database \<Rightarrow> nat \<Rightarrow> exn + response" where
  "get_chat db chat_id =
     and_then (Chat_get db (int chat_id)) (\<lambda>found.
       case found of
         None \<Rightarrow> Inr (Response 404 (PDict [(ustr_of ''error'', PStr (ustr_of ''Chat not found''))]))
       | Some chat \<Rightarrow>
           (let ms = map Message_to_dict
                  (order_by_asc Message_created_at
                     (filter (\<lambda>m. Message_chat_id m = Chat_id chat) (messages db)))
            in Inr (Response 200 (PDict [(ustr_of ''messages'', PList ms)]))))"

text \<open>
  The status the client sees: Flask answers an exception that leaves a view function
  with 500.
\<close>

fun http_status :: "exn + response \<Rightarrow> nat" where
  "http_status (Inl e) = 500"
| "http_status (Inr (Response status body)) = status"

text \<open>
  What POST /chat reads from outside, beyond the providers: the clock (\<open>utcnow k\<close> is the
  reading taken for row number \<open>k\<close> that the request inserts), and four behaviours of the
  libraries on values that are not of the expected type, which depend on the versions of
  the ORM, the driver and Python and are therefore parameters:
  how the ORM and the engine read an identifier that is not an integer (the key it stands
  for, none, or an error), what a string column stores for a value that is neither a
  string nor \<open>None\<close> (or an error), how an f-string renders a value that is not a string,
  and the text \<open>str(e)\<close> of an exception.
\<close>

record runtime =
  prov :: providers
  utcnow :: "nat \<Rightarrow> datetime"
  ident_of :: "pyval \<Rightarrow> exn + int option"
  store_text :: "pyval \<Rightarrow> exn + ustr"
  format_value :: "pyval \<Rightarrow> ustr"
  exc_str :: "exn \<Rightarrow> ustr"

text \<open>\<open>Chat.query.get(v)\<close> for a request value \<open>v\<close>; a Python boolean is an integer.\<close>

fun Chat_query_get :: "runtime \<Rightarrow> database \<Rightarrow> pyval \<Rightarrow> exn + Chat option" where
  "Chat_query_get r db (PInt i) = Chat_get db i"
| "Chat_query_get r db (PBool b) = Chat_get db (if b then 1 else 0)"
| "Chat_query_get r db v =
     and_then (ident_of r v) (\<lambda>k. case k of None \<Rightarrow> Inr None | Some i \<Rightarrow> Chat_get db i)"

text \<open>
  A value bound to a string column: a string that the driver can encode is stored as it
  is, \<open>None\<close> as NULL.
\<close>

fun bind_text :: "runtime \<Rightarrow> pyval \<Rightarrow> exn + ustr option" where
  "bind_text r (PStr s) = (if has_surrogate s then Inl UnicodeEncodeError else Inr (Some s))"
| "bind_text r PNone = Inr None"
| "bind_text r v = and_then (store_text r v) (\<lambda>s. Inr (Some s))"

text \<open>\<open>f"{v}"\<close>: a string is inserted as it is.\<close>

fun py_format :: "runtime \<Rightarrow> pyval \<Rightarrow> ustr" where
  "py_format r (PStr s) = s"
| "py_format r v = format_value r v"

text \<open>\<open>data.get(k)\<close>: \<open>None\<close> for a missing key; only a dict has the method here.\<close>

fun dict_get :: "pyval \<Rightarrow> ustr \<Rightarrow> exn + pyval" where
  "dict_get (PDict kvs) k = (case map_of kvs k of Some v \<Rightarrow> Inr v | None \<Rightarrow> Inr PNone)"
| "dict_get PNone k = Inl AttributeError"
| "dict_get (PBool b) k = Inl AttributeError"
| "dict_get (PInt i) k = Inl AttributeError"
| "dict_get (PStr s) k = Inl AttributeError"
| "dict_get (PList xs) k = Inl AttributeError"

text \<open>
  Lines 165-167: \<open>chat = Chat(title=user_message[:200])\<close>, added and committed. The
  result is the new chat and the store with it.
\<close>

definition create_chat :: "runtime \<Rightarrow> database \<Rightarrow> pyval \<Rightarrow> exn + Chat \<times> database" where
  "create_chat r db user_message =
     and_then (slice_200 user_message) (\<lambda>title.
     and_then (bind_text r title) (\<lambda>t.
       let c = \<lparr>Chat_id = next_id (map Chat_id (chats db)), Chat_title = t,
                Chat_created_at = Some (utcnow r 0)\<rparr>
       in Inr (c, db\<lparr>chats := chats db @ [c]\<rparr>)))"

text \<open>
  Lines 169-174 and 178-183: a \<open>Message\<close> added and committed. \<open>content\<close> is a column
  that is not nullable: NULL is rejected by the store.
\<close>

definition add_message :: "runtime \<Rightarrow> datetime \<Rightarrow> int \<Rightarrow> ustr \<Rightarrow> pyval \<Rightarrow> database \<Rightarrow> exn + database" where
  "add_message r now chat_id role content db =
     and_then (bind_text r content) (\<lambda>c.
       case c of
         None \<Rightarrow> Inl (LibraryError (ustr_of ''IntegrityError''))
       | Some s \<Rightarrow>
           Inr (db\<lparr>messages := messages db @
             [\<lparr>Message_id = next_id (map Message_id (messages db)), Message_chat_id = chat_id,
               Message_role = role, Message_content = s, Message_created_at = Some now\<rparr>]\<rparr>))"

definition missing_message :: response where
  "missing_message = Response 400
     (PDict [(ustr_of ''error'', PStr (ustr_of (''Missing '' @ [CHR 0x27] @ ''message'' @ [CHR 0x27])))])"

text \<open>
  Lines 156-161: the request is read. \<open>None\<close> is the answer 400 of line 158; otherwise
  the result is \<open>user_message\<close> and \<open>chat_id\<close>. The argument \<open>get_json\<close> is what
  \<open>request.get_json()\<close> does: it returns the parsed body or raises.
\<close>

definition read_request :: "exn + pyval \<Rightarrow> exn + (pyval \<times> pyval) option" where
  "read_request get_json =
     and_then get_json (\<lambda>j.
       let data = (if truthy j then j else PDict []) in
       and_then (py_in (ustr_of ''message'') data) (\<lambda>has_message.
         if \<not> has_message then Inr None
         else
           and_then (getitem_str data (ustr_of ''message'')) (\<lambda>user_message.
           and_then (dict_get data (ustr_of ''chat_id'')) (\<lambda>chat_id.
             Inr (Some (user_message, chat_id))))))"

text \<open>
  Lines 163-167: the chat is looked up or created. The result is the chat, the store, and
  the number of rows inserted so far.
\<close>

definition resolve_chat :: "runtime \<Rightarrow> database \<Rightarrow> pyval \<Rightarrow> pyval \<Rightarrow> exn + Chat \<times> database \<times> nat" where
  "resolve_chat r db chat_id user_message =
     and_then (if truthy chat_id then Chat_query_get r db chat_id else Inr None) (\<lambda>found.
       case found of
         Some c \<Rightarrow> Inr (c, db, 0)
       | None \<Rightarrow> and_then (create_chat r db user_message) (\<lambda>(c, db'). Inr (c, db', 1)))"

text \<open>
  Lines 169-188: the user message is stored, the reply generated and stored, and the
  answer built. The store in the result is the store after the last commit that succeeded.
\<close>

definition chat_turn :: "runtime \<Rightarrow> Chat \<Rightarrow> nat \<Rightarrow> pyval \<Rightarrow> database \<Rightarrow> (exn + response) \<times> database" where
  "chat_turn r chat k user_message db1 =
     (case add_message r (utcnow r k) (Chat_id chat) (ustr_of ''user'') user_message db1 of
        Inl e \<Rightarrow> (Inl e, db1)
      | Inr db2 \<Rightarrow>
         (case fst (generate_response (prov r) (py_format r user_message)) of
            Inl e \<Rightarrow> (Inl e, db2)
          | Inr ai_reply \<Rightarrow>
             (case add_message r (utcnow r (k + 1)) (Chat_id chat) (ustr_of ''assistant'')
                     (PStr ai_reply) db2 of
                Inl e \<Rightarrow> (Inl e, db2)
              | Inr db3 \<Rightarrow>
                 (Inr (Response 200 (PDict [(ustr_of ''chat_id'', PInt (Chat_id chat)),
                                            (ustr_of ''response'', PStr ai_reply)])), db3))))"

text \<open>The body of the \<open>try\<close> of POST /chat (lines 156-188).\<close>

definition chat_try :: "runtime \<Rightarrow> database \<Rightarrow> exn + pyval \<Rightarrow> (exn + response) \<times> database" where
  "chat_try r db get_json =
     (case read_request get_json of
        Inl e \<Rightarrow> (Inl e, db)
      | Inr None \<Rightarrow> (Inr missing_message, db)
      | Inr (Some (user_message, chat_id)) \<Rightarrow>
         (case resolve_chat r db chat_id user_message of
            Inl e \<Rightarrow> (Inl e, db)
          | Inr (chat, db1, k) \<Rightarrow> chat_turn r chat k user_message db1))"

text \<open>POST /chat with its handler (lines 190-195).\<close>

definition chat :: "runtime \<Rightarrow> database \<Rightarrow> exn + pyval \<Rightarrow> response \<times> database" where
  "chat r db get_json =
     (case chat_try r db get_json of
        (Inr resp, db') \<Rightarrow> (resp, db')
      | (Inl e, db') \<Rightarrow>
          (Response 500 (PDict [(ustr_of ''error'', PStr (ustr_of ''Internal server error'')),
                                (ustr_of ''details'', PStr (exc_str r e))]), db'))"

section \<open>Concrete inputs\<close>

text \<open>Provider behaviours and requests at which the properties below are evaluated.\<close>

definition hello_completion :: pyval where
  "hello_completion = PDict [(ustr_of ''id'', PStr (ustr_of ''gen-1'')),
     (ustr_of ''choices'', PList [PDict [(ustr_of ''message'',
        PDict [(ustr_of ''role'', PStr (ustr_of ''assistant'')),
               (ustr_of ''content'', PStr (ustr_of '' Hello there ''))])]])]"

definition null_completion :: pyval where
  "null_completion = PDict [(ustr_of ''choices'', PList [PDict [(ustr_of ''message'',
        PDict [(ustr_of ''role'', PStr (ustr_of ''assistant'')), (ustr_of ''content'', PNone)])]])]"

definition genai_hi :: genai_outcome where
  "genai_hi = GenaiResponse (Inr (PStr (ustr_of '' hi''))) (Inl AttributeError)"

definition both_unset :: providers where
  "both_unset = \<lparr>OPENROUTER_API_KEY = None, GEMINI_API_KEY = None, HAS_GENAI = True,
     requests_post = (\<lambda>q. HttpResponse 200 [] (Inr hello_completion)),
     generate_content = (\<lambda>q. genai_hi)\<rparr>"

definition both_fail :: providers where
  "both_fail = \<lparr>OPENROUTER_API_KEY = Some (ustr_of ''sk-or''), GEMINI_API_KEY = Some (ustr_of ''g-key''),
     HAS_GENAI = True,
     requests_post = (\<lambda>q. PostRaises (LibraryError (ustr_of ''ReadTimeout''))),
     generate_content = (\<lambda>q. GenerateRaises (LibraryError (ustr_of ''ServerError'')))\<rparr>"

definition primary_ok :: providers where
  "primary_ok = \<lparr>OPENROUTER_API_KEY = Some (ustr_of ''sk-or''), GEMINI_API_KEY = Some (ustr_of ''g-key''),
     HAS_GENAI = True,
     requests_post = (\<lambda>q. HttpResponse 200 [] (Inr hello_completion)),
     generate_content = (\<lambda>q. genai_hi)\<rparr>"

definition primary_null :: providers where
  "primary_null = \<lparr>OPENROUTER_API_KEY = Some (ustr_of ''sk-or''), GEMINI_API_KEY = Some (ustr_of ''g-key''),
     HAS_GENAI = True,
     requests_post = (\<lambda>q. HttpResponse 200 [] (Inr null_completion)),
     generate_content = (\<lambda>q. genai_hi)\<rparr>"

definition primary_500 :: providers where
  "primary_500 = \<lparr>OPENROUTER_API_KEY = Some (ustr_of ''sk-or''), GEMINI_API_KEY = Some (ustr_of ''g-key''),
     HAS_GENAI = True,
     requests_post = (\<lambda>q. HttpResponse 500 (ustr_of ''Internal Server Error'') (Inl (LibraryError (ustr_of ''JSONDecodeError'')))),
     generate_content = (\<lambda>q. genai_hi)\<rparr>"

definition nested_only :: providers where
  "nested_only = \<lparr>OPENROUTER_API_KEY = None, GEMINI_API_KEY = Some (ustr_of ''g-key''),
     HAS_GENAI = True,
     requests_post = (\<lambda>q. PostRaises (LibraryError (ustr_of ''ConnectionError''))),
     generate_content = (\<lambda>q. GenaiResponse (Inr PNone) (Inr (PStr (ustr_of ''nested ''))))\<rparr>"

definition store_example :: database where
  "store_example = \<lparr>
     chats = [
       \<lparr>Chat_id = 1, Chat_title = Some (ustr_of ''first''), Chat_created_at = Some (2025, 3, 1, 9, 30, 0, 0)\<rparr>,
       \<lparr>Chat_id = 2, Chat_title = Some (ustr_of ''second''), Chat_created_at = Some (2025, 3, 2, 8, 0, 0, 0)\<rparr>,
       \<lparr>Chat_id = 3, Chat_title = None, Chat_created_at = Some (2025, 2, 28, 23, 59, 59, 17)\<rparr>],
     messages = [
       \<lparr>Message_id = 1, Message_chat_id = 1, Message_role = ustr_of ''user'',
        Message_content = ustr_of ''hi'', Message_created_at = Some (2025, 3, 1, 9, 30, 1, 0)\<rparr>,
       \<lparr>Message_id = 2, Message_chat_id = 2, Message_role = ustr_of ''user'',
        Message_content = ustr_of ''other'', Message_created_at = Some (2025, 3, 2, 8, 0, 1, 0)\<rparr>,
       \<lparr>Message_id = 3, Message_chat_id = 1, Message_role = ustr_of ''assistant'',
        Message_content = ustr_of ''hello'', Message_created_at = Some (2025, 3, 1, 9, 30, 0, 500)\<rparr>]\<rparr>"

fun exception_name :: "exn \<Rightarrow> ustr" where
  "exception_name TypeError = ustr_of ''TypeError''"
| "exception_name KeyError = ustr_of ''KeyError''"
| "exception_name IndexError = ustr_of ''IndexError''"
| "exception_name AttributeError = ustr_of ''AttributeError''"
| "exception_name OverflowError = ustr_of ''OverflowError''"
| "exception_name UnicodeEncodeError = ustr_of ''UnicodeEncodeError''"
| "exception_name (Raised msg) = msg"
| "exception_name (LibraryError name) = name"

definition runtime_example :: runtime where
  "runtime_example = \<lparr>prov = primary_ok,
     utcnow = (\<lambda>k. (2025, 3, 3, 12, 0, k, 0)),
     ident_of = (\<lambda>v. Inr None),
     store_text = (\<lambda>v. Inl (LibraryError (ustr_of ''InterfaceError''))),
     format_value = (\<lambda>v. ustr_of ''?''),
     exc_str = exception_name\<rparr>"

definition store_after :: database where
  "store_after = \<lparr>
     chats = chats store_example @
       [\<lparr>Chat_id = 4, Chat_title = Some (replicate 200 97),
         Chat_created_at = Some (2025, 3, 3, 12, 0, 0, 0)\<rparr>],
     messages = messages store_example @
       [\<lparr>Message_id = 4, Message_chat_id = 4, Message_role = ustr_of ''user'',
         Message_content = replicate 250 97, Message_created_at = Some (2025, 3, 3, 12, 0, 1, 0)\<rparr>,
        \<lparr>Message_id = 5, Message_chat_id = 4, Message_role = ustr_of ''assistant'',
         Message_content = ustr_of ''Hello there'', Message_created_at = Some (2025, 3, 3, 12, 0, 2, 0)\<rparr>]\<rparr>"

section \<open>Properties\<close>

lemma ustr_of_eq_iff [simp]: "ustr_of a = ustr_of b \<longleftrightarrow> a = b"
  unfolding ustr_of_def by (simp add: inj_map_eq_map inj_on_def)

lemma ustr_of_Nil_iff [simp]: "ustr_of a = [] \<longleftrightarrow> a = []"
  by (simp add: ustr_of_def)

lemma and_then_simps [simp]:
  "and_then (Inl e) f = Inl e" "and_then (Inr v) f = f v"
  by (simp_all add: and_then_def)

lemmas provider_defs = generate_response_def openrouter_step_def openrouter_try_def
  gemini_step_def gemini_try_def first_choice_def

lemma strip_hi: "strip (ustr_of '' hi'') = ustr_of ''hi''"
  by (simp add: strip_def isspace_def ustr_of_def)

lemma strip_hello: "strip (ustr_of '' Hello there '') = ustr_of ''Hello there''"
  by (simp add: strip_def isspace_def ustr_of_def)

subsection \<open>The prompt builder\<close>

text \<open>
  C7. \<open>build_prompt\<close> is a function of its argument alone: for every string \<open>s\<close> its
  value is the instructions block, the separator and \<open>s\<close>, so it begins with the
  instructions block and ends with \<open>s\<close>.
\<close>

theorem build_prompt_shape:
  "build_prompt s = SYSTEM_INSTRUCTIONS @ ustr_of ([CHR 0x0A, CHR 0x0A] @ ''User:'' @ [CHR 0x0A]) @ s
   \<and> prefix SYSTEM_INSTRUCTIONS (build_prompt s) \<and> suffix s (build_prompt s)"
  by (simp add: build_prompt_def suffix_def)

theorem build_prompt_shape_witness:
  "build_prompt (ustr_of ''What is 2+2?'')
     = SYSTEM_INSTRUCTIONS @ ustr_of ([CHR 0x0A, CHR 0x0A] @ ''User:'' @ [CHR 0x0A]) @ ustr_of ''What is 2+2?''
   \<and> prefix SYSTEM_INSTRUCTIONS (build_prompt (ustr_of ''What is 2+2?''))
   \<and> suffix (ustr_of ''What is 2+2?'') (build_prompt (ustr_of ''What is 2+2?''))"
  by (rule build_prompt_shape)

subsection \<open>The provider-fallback caller\<close>

text \<open>
  C1. \<open>generate_response\<close> returns a string for every message and every behaviour of
  the two providers and raises nothing; an exception in the first provider's \<open>try\<close>
  leads to the second step, and an exception in the second provider's \<open>try\<close> leads to the
  fixed message.
\<close>

theorem generate_response_never_raises:
  "(\<exists>s. fst (generate_response p m) = Inr s)
   \<and> (\<forall>e. getenv_truthy (OPENROUTER_API_KEY p) \<and> fst (openrouter_try p (build_prompt m)) = Inl e
        \<longrightarrow> fst (generate_response p m)
            = Inr (case fst (gemini_step p (build_prompt m)) of Some s \<Rightarrow> s | None \<Rightarrow> UNAVAILABLE))
   \<and> (\<forall>e. HAS_GENAI p \<and> getenv_truthy (GEMINI_API_KEY p) \<and> fst (openrouter_step p (build_prompt m)) = None
          \<and> fst (gemini_try p (build_prompt m)) = Inl e
        \<longrightarrow> fst (generate_response p m) = Inr UNAVAILABLE)"
  by (auto simp add: generate_response_def openrouter_step_def gemini_step_def Let_def
      split: prod.splits option.splits sum.splits)

theorem generate_response_never_raises_witness:
  "getenv_truthy (OPENROUTER_API_KEY both_fail)
   \<and> fst (openrouter_try both_fail (build_prompt (ustr_of ''hello''))) = Inl (LibraryError (ustr_of ''ReadTimeout''))
   \<and> HAS_GENAI both_fail \<and> getenv_truthy (GEMINI_API_KEY both_fail)
   \<and> fst (openrouter_step both_fail (build_prompt (ustr_of ''hello''))) = None
   \<and> fst (gemini_try both_fail (build_prompt (ustr_of ''hello''))) = Inl (LibraryError (ustr_of ''ServerError''))
   \<and> fst (generate_response both_fail (ustr_of ''hello'')) = Inr UNAVAILABLE"
proof -
  let ?q = "build_prompt (ustr_of ''hello'')"
  have a: "getenv_truthy (OPENROUTER_API_KEY both_fail)"
    and b: "HAS_GENAI both_fail \<and> getenv_truthy (GEMINI_API_KEY both_fail)"
    by (simp_all add: both_fail_def)
  have c: "fst (openrouter_try both_fail ?q) = Inl (LibraryError (ustr_of ''ReadTimeout''))"
    by (simp add: openrouter_try_def both_fail_def)
  have d: "fst (openrouter_step both_fail ?q) = None"
    by (simp add: openrouter_step_def openrouter_try_def both_fail_def)
  have e: "fst (gemini_try both_fail ?q) = Inl (LibraryError (ustr_of ''ServerError''))"
    by (simp add: gemini_try_def both_fail_def)
  from generate_response_never_raises [of both_fail "ustr_of ''hello''"] b d e
  have "fst (generate_response both_fail (ustr_of ''hello'')) = Inr UNAVAILABLE"
    by blast
  with a b c d e show ?thesis by simp
qed

lemma generate_response_steps:
  "fst (generate_response p m)
     = Inr (case fst (openrouter_step p (build_prompt m)) of
              Some s \<Rightarrow> s
            | None \<Rightarrow> (case fst (gemini_step p (build_prompt m)) of
                         Some s \<Rightarrow> s | None \<Rightarrow> UNAVAILABLE))"
  by (cases "openrouter_step p (build_prompt m)"; cases "gemini_step p (build_prompt m)")
     (simp add: generate_response_def Let_def split: option.splits)

text \<open>
  C4. When the first provider is not configured or its attempt yields no reply, and the
  second provider is not available (library or credential missing) or its attempt raises,
  \<open>generate_response\<close> returns exactly the fixed message.
\<close>

theorem generate_response_unavailable:
  assumes "\<not> getenv_truthy (OPENROUTER_API_KEY p)
           \<or> (\<forall>s. fst (openrouter_try p (build_prompt m)) \<noteq> Inr (Some s))"
    and "\<not> (HAS_GENAI p \<and> getenv_truthy (GEMINI_API_KEY p))
           \<or> (\<exists>e. fst (gemini_try p (build_prompt m)) = Inl e)"
  shows "fst (generate_response p m)
           = Inr (ustr_of ''All AI providers are currently unavailable. Please try again later.'')"
proof -
  have 1: "fst (openrouter_step p (build_prompt m)) = None"
    using assms(1)
    by (cases "openrouter_try p (build_prompt m)")
       (auto simp add: openrouter_step_def split: sum.splits option.splits)
  have 2: "fst (gemini_step p (build_prompt m)) = None"
    using assms(2)
    by (cases "gemini_try p (build_prompt m)")
       (auto simp add: gemini_step_def split: sum.splits)
  from 1 2 show ?thesis
    by (simp add: generate_response_steps UNAVAILABLE_def)
qed

theorem generate_response_unavailable_witness:
  "\<not> getenv_truthy (OPENROUTER_API_KEY both_unset)
   \<and> \<not> (HAS_GENAI both_unset \<and> getenv_truthy (GEMINI_API_KEY both_unset))
   \<and> fst (generate_response both_unset (ustr_of ''hello''))
       = Inr (ustr_of ''All AI providers are currently unavailable. Please try again later.'')
   \<and> getenv_truthy (OPENROUTER_API_KEY both_fail)
   \<and> HAS_GENAI both_fail \<and> getenv_truthy (GEMINI_API_KEY both_fail)
   \<and> fst (openrouter_try both_fail (build_prompt (ustr_of ''hello''))) = Inl (LibraryError (ustr_of ''ReadTimeout''))
   \<and> fst (gemini_try both_fail (build_prompt (ustr_of ''hello''))) = Inl (LibraryError (ustr_of ''ServerError''))
   \<and> fst (generate_response both_fail (ustr_of ''hello''))
       = Inr (ustr_of ''All AI providers are currently unavailable. Please try again later.'')"
proof -
  let ?q = "build_prompt (ustr_of ''hello'')"
  have a: "\<not> getenv_truthy (OPENROUTER_API_KEY both_unset)"
    and b: "\<not> (HAS_GENAI both_unset \<and> getenv_truthy (GEMINI_API_KEY both_unset))"
    by (simp_all add: both_unset_def)
  have c: "getenv_truthy (OPENROUTER_API_KEY both_fail)"
    and d: "HAS_GENAI both_fail \<and> getenv_truthy (GEMINI_API_KEY both_fail)"
    by (simp_all add: both_fail_def)
  have e: "fst (openrouter_try both_fail ?q) = Inl (LibraryError (ustr_of ''ReadTimeout''))"
    by (simp add: openrouter_try_def both_fail_def)
  have f: "fst (gemini_try both_fail ?q) = Inl (LibraryError (ustr_of ''ServerError''))"
    by (simp add: gemini_try_def both_fail_def)
  have g: "fst (generate_response both_unset (ustr_of ''hello''))
       = Inr (ustr_of ''All AI providers are currently unavailable. Please try again later.'')"
    using a b by (intro generate_response_unavailable) simp_all
  have h: "fst (generate_response both_fail (ustr_of ''hello''))
       = Inr (ustr_of ''All AI providers are currently unavailable. Please try again later.'')"
    using e f by (intro generate_response_unavailable) simp_all
  from a b c d e f g h show ?thesis by blast
qed

text \<open>
  C2, as stated, fails: a response with status 200 whose choice list is not empty does not
  always yield a reply. Here the first choice holds \<open>null\<close> as its content;
  \<open>.strip()\<close> raises inside the \<open>try\<close>, the handler logs it, and the second provider
  is called and answers.
\<close>

theorem primary_null_content_counterexample:
  "getenv_truthy (OPENROUTER_API_KEY primary_null)
   \<and> requests_post primary_null (build_prompt (ustr_of ''hello''))
       = HttpResponse 200 []
          (Inr (PDict [(ustr_of ''choices'', PList [PDict [(ustr_of ''message'',
             PDict [(ustr_of ''role'', PStr (ustr_of ''assistant'')), (ustr_of ''content'', PNone)])]])]))
   \<and> generate_response primary_null (ustr_of ''hello'')
       = (Inr (ustr_of ''hi''),
          [OpenRouterRequest (build_prompt (ustr_of ''hello'')), WarnOpenRouterFailed AttributeError,
           GenaiRequest (build_prompt (ustr_of ''hello''))])"
  by (simp add: provider_defs primary_null_def null_completion_def genai_hi_def strip_hi Let_def)

text \<open>
  C2, amended. If the first provider's credential is configured and its response has
  status 200 and a JSON object as body whose \<open>choices\<close> is a list with a first element
  that holds a string at \<open>message.content\<close>, then \<open>generate_response\<close> returns exactly
  that string stripped, and the only event is the request to the first provider: no
  request to the second provider and no warning.
\<close>

theorem primary_success:
  assumes "getenv_truthy (OPENROUTER_API_KEY p)"
    and "requests_post p (build_prompt m) = HttpResponse 200 text (Inr (PDict body))"
    and "map_of body (ustr_of ''choices'') = Some (PList (PDict choice # choices))"
    and "map_of choice (ustr_of ''message'') = Some (PDict message)"
    and "map_of message (ustr_of ''content'') = Some (PStr content)"
  shows "generate_response p m = (Inr (strip content), [OpenRouterRequest (build_prompt m)])"
  using assms by (simp add: provider_defs Let_def)

theorem primary_success_witness:
  "getenv_truthy (OPENROUTER_API_KEY primary_ok)
   \<and> requests_post primary_ok (build_prompt (ustr_of ''hello'')) = HttpResponse 200 [] (Inr hello_completion)
   \<and> generate_response primary_ok (ustr_of ''hello'')
       = (Inr (ustr_of ''Hello there''), [OpenRouterRequest (build_prompt (ustr_of ''hello''))])"
proof -
  have a: "getenv_truthy (OPENROUTER_API_KEY primary_ok)"
    by (simp add: primary_ok_def)
  have b: "requests_post primary_ok (build_prompt (ustr_of ''hello''))
     = HttpResponse 200 [] (Inr (PDict [(ustr_of ''id'', PStr (ustr_of ''gen-1'')),
     (ustr_of ''choices'', PList [PDict [(ustr_of ''message'',
        PDict [(ustr_of ''role'', PStr (ustr_of ''assistant'')),
               (ustr_of ''content'', PStr (ustr_of '' Hello there ''))])]])]))"
    by (simp add: primary_ok_def hello_completion_def)
  have c: "map_of [(ustr_of ''id'', PStr (ustr_of ''gen-1'')),
     (ustr_of ''choices'', PList [PDict [(ustr_of ''message'',
        PDict [(ustr_of ''role'', PStr (ustr_of ''assistant'')),
               (ustr_of ''content'', PStr (ustr_of '' Hello there ''))])]])] (ustr_of ''choices'')
     = Some (PList (PDict [(ustr_of ''message'',
        PDict [(ustr_of ''role'', PStr (ustr_of ''assistant'')),
               (ustr_of ''content'', PStr (ustr_of '' Hello there ''))])] # []))"
    by simp
  have d: "map_of [(ustr_of ''message'',
        PDict [(ustr_of ''role'', PStr (ustr_of ''assistant'')),
               (ustr_of ''content'', PStr (ustr_of '' Hello there ''))])] (ustr_of ''message'')
     = Some (PDict [(ustr_of ''role'', PStr (ustr_of ''assistant'')),
               (ustr_of ''content'', PStr (ustr_of '' Hello there ''))])"
    by simp
  have e: "map_of [(ustr_of ''role'', PStr (ustr_of ''assistant'')),
               (ustr_of ''content'', PStr (ustr_of '' Hello there ''))] (ustr_of ''content'')
     = Some (PStr (ustr_of '' Hello there ''))"
    by simp
  have "generate_response primary_ok (ustr_of ''hello'')
     = (Inr (strip (ustr_of '' Hello there '')), [OpenRouterRequest (build_prompt (ustr_of ''hello''))])"
    by (rule primary_success [OF a b c d e])
  with a b show ?thesis by (simp add: strip_hello hello_completion_def)
qed

text \<open>
  C3, as stated, fails: the value returned is not the second provider's text but that text
  stripped (line 145). Here the first provider answers 500 and the second provider's text
  begins with a space.
\<close>

theorem secondary_untrimmed_counterexample:
  "requests_post primary_500 (build_prompt (ustr_of ''hello''))
     = HttpResponse 500 (ustr_of ''Internal Server Error'') (Inl (LibraryError (ustr_of ''JSONDecodeError'')))
   \<and> HAS_GENAI primary_500 \<and> getenv_truthy (GEMINI_API_KEY primary_500)
   \<and> generate_content primary_500 (build_prompt (ustr_of ''hello''))
       = GenaiResponse (Inr (PStr (ustr_of '' hi''))) (Inl AttributeError)
   \<and> fst (generate_response primary_500 (ustr_of ''hello'')) = Inr (ustr_of ''hi'')
   \<and> fst (generate_response primary_500 (ustr_of ''hello'')) \<noteq> Inr (ustr_of '' hi'')"
  by (simp add: provider_defs primary_500_def genai_hi_def strip_hi Let_def)

text \<open>
  C3, amended. If the first provider is not configured, or its request raises, or its
  status is not 200, and the second provider is configured, its library available and its
  call returns a response, then \<open>generate_response\<close> returns the response text with
  leading and trailing whitespace removed: the attribute \<open>text\<close> when it is a non-empty
  string, and the string \<open>candidates[0].output\<close> when \<open>text\<close> is empty, \<open>None\<close> or
  missing.
\<close>

theorem secondary_success:
  assumes "\<not> getenv_truthy (OPENROUTER_API_KEY p)
           \<or> (\<exists>e. requests_post p (build_prompt m) = PostRaises e)
           \<or> (\<exists>status text js. requests_post p (build_prompt m) = HttpResponse status text js \<and> status \<noteq> 200)"
    and "HAS_GENAI p" and "getenv_truthy (GEMINI_API_KEY p)"
    and "generate_content p (build_prompt m) = GenaiResponse resp_text candidate_output"
    and "(\<exists>t. resp_text = Inr (PStr t) \<and> t \<noteq> [] \<and> s = t)
         \<or> ((resp_text = Inr (PStr []) \<or> resp_text = Inr PNone \<or> resp_text = Inl AttributeError)
             \<and> candidate_output = Inr (PStr s))"
  shows "fst (generate_response p m) = Inr (strip s)"
proof -
  have 1: "fst (openrouter_step p (build_prompt m)) = None"
    using assms(1) by (auto simp add: openrouter_step_def openrouter_try_def)
  have 2: "fst (gemini_step p (build_prompt m)) = Some (strip s)"
    using assms(2-5) by (auto simp add: gemini_step_def gemini_try_def)
  from 1 2 show ?thesis
    by (simp add: generate_response_steps)
qed

lemma strip_nested: "strip (ustr_of ''nested '') = ustr_of ''nested''"
  by (simp add: strip_def isspace_def ustr_of_def)

theorem secondary_success_witness:
  "requests_post primary_500 (build_prompt (ustr_of ''hello''))
     = HttpResponse 500 (ustr_of ''Internal Server Error'') (Inl (LibraryError (ustr_of ''JSONDecodeError'')))
   \<and> HAS_GENAI primary_500 \<and> getenv_truthy (GEMINI_API_KEY primary_500)
   \<and> generate_content primary_500 (build_prompt (ustr_of ''hello''))
       = GenaiResponse (Inr (PStr (ustr_of '' hi''))) (Inl AttributeError)
   \<and> fst (generate_response primary_500 (ustr_of ''hello'')) = Inr (ustr_of ''hi'')
   \<and> \<not> getenv_truthy (OPENROUTER_API_KEY nested_only)
   \<and> HAS_GENAI nested_only \<and> getenv_truthy (GEMINI_API_KEY nested_only)
   \<and> generate_content nested_only (build_prompt (ustr_of ''hello''))
       = GenaiResponse (Inr PNone) (Inr (PStr (ustr_of ''nested '')))
   \<and> fst (generate_response nested_only (ustr_of ''hello'')) = Inr (ustr_of ''nested'')"
proof -
  let ?q = "build_prompt (ustr_of ''hello'')"
  have a: "requests_post primary_500 ?q
     = HttpResponse 500 (ustr_of ''Internal Server Error'') (Inl (LibraryError (ustr_of ''JSONDecodeError'')))"
    and b: "HAS_GENAI primary_500" and c: "getenv_truthy (GEMINI_API_KEY primary_500)"
    and d: "generate_content primary_500 ?q = GenaiResponse (Inr (PStr (ustr_of '' hi''))) (Inl AttributeError)"
    by (simp_all add: primary_500_def genai_hi_def)
  have e: "\<not> getenv_truthy (OPENROUTER_API_KEY nested_only)"
    and f: "HAS_GENAI nested_only" and g: "getenv_truthy (GEMINI_API_KEY nested_only)"
    and h: "generate_content nested_only ?q = GenaiResponse (Inr PNone) (Inr (PStr (ustr_of ''nested '')))"
    by (simp_all add: nested_only_def)
  have "fst (generate_response primary_500 (ustr_of ''hello'')) = Inr (strip (ustr_of '' hi''))"
    using a by (intro secondary_success [OF _ b c d]) simp_all
  moreover
  have "fst (generate_response nested_only (ustr_of ''hello'')) = Inr (strip (ustr_of ''nested ''))"
    using e by (intro secondary_success [OF _ f g h]) simp_all
  ultimately show ?thesis
    using a b c d e f g h by (simp add: strip_hi strip_nested)
qed

subsection \<open>The store and the GET endpoints\<close>

lemma replicate_numeral: "replicate (numeral k) x = x # replicate (pred_numeral k) x"
  by (simp add: numeral_eq_Suc)

lemmas to_dict_defs = Chat_to_dict_def Message_to_dict_def zero_padded_def str_nat.simps
  replicate_numeral

text \<open>
  C9. For every store, GET /chats answers 200 with the summaries (\<open>id\<close>, \<open>title\<close>,
  \<open>created_at\<close>) of all chats, each once, newest first: the creation times do not increase
  along the list.
\<close>

theorem list_chats_newest_first:
  "\<exists>cs. list_chats db = Response 200 (PList (map Chat_to_dict cs))
        \<and> mset cs = mset (chats db)
        \<and> sorted_wrt (\<lambda>a b. Chat_created_at a \<ge> Chat_created_at b) cs"
proof -
  let ?cs = "order_by_desc Chat_created_at (chats db)"
  have "sorted (map Chat_created_at (sort_key Chat_created_at (chats db)))"
    by (rule sorted_sort_key)
  then have "sorted_wrt (\<lambda>a b. Chat_created_at a \<ge> Chat_created_at b) ?cs"
    by (simp add: order_by_desc_def sorted_wrt_rev sorted_wrt_map)
  moreover have "mset ?cs = mset (chats db)"
    by (simp add: order_by_desc_def)
  moreover have "list_chats db = Response 200 (PList (map Chat_to_dict ?cs))"
    by (simp add: list_chats_def)
  ultimately show ?thesis by blast
qed

theorem list_chats_newest_first_witness:
  "list_chats store_example = Response 200 (PList
     [PDict [(ustr_of ''id'', PInt 2), (ustr_of ''title'', PStr (ustr_of ''second'')),
             (ustr_of ''created_at'', PStr (ustr_of ''2025-03-02T08:00:00''))],
      PDict [(ustr_of ''id'', PInt 1), (ustr_of ''title'', PStr (ustr_of ''first'')),
             (ustr_of ''created_at'', PStr (ustr_of ''2025-03-01T09:30:00''))],
      PDict [(ustr_of ''id'', PInt 3), (ustr_of ''title'', PNone),
             (ustr_of ''created_at'', PStr (ustr_of ''2025-02-28T23:59:59.000017''))]])
   \<and> (\<exists>cs. list_chats store_example = Response 200 (PList (map Chat_to_dict cs))
          \<and> mset cs = mset (chats store_example)
          \<and> sorted_wrt (\<lambda>a b. Chat_created_at a \<ge> Chat_created_at b) cs)"
proof -
  have "list_chats store_example = Response 200 (PList
     [PDict [(ustr_of ''id'', PInt 2), (ustr_of ''title'', PStr (ustr_of ''second'')),
             (ustr_of ''created_at'', PStr (ustr_of ''2025-03-02T08:00:00''))],
      PDict [(ustr_of ''id'', PInt 1), (ustr_of ''title'', PStr (ustr_of ''first'')),
             (ustr_of ''created_at'', PStr (ustr_of ''2025-03-01T09:30:00''))],
      PDict [(ustr_of ''id'', PInt 3), (ustr_of ''title'', PNone),
             (ustr_of ''created_at'', PStr (ustr_of ''2025-02-28T23:59:59.000017''))]])"
    by (simp add: list_chats_def order_by_desc_def store_example_def to_dict_defs ustr_of_def)
  with list_chats_newest_first [of store_example] show ?thesis by blast
qed

lemma sqlite_int_nat: "sqlite_int (int i) \<longleftrightarrow> i < 2 ^ 63"
proof -
  have "(0::int) \<le> int i" by simp
  moreover have "- (2 ^ 63) \<le> (0::int)" by simp
  ultimately have "- (2 ^ 63) \<le> int i" by (rule order_trans [rotated])
  then show ?thesis by (simp add: sqlite_int_def)
qed

text \<open>
  C8, as stated, fails: an id for which no chat exists is not always answered with 404.
  The route accepts the id 9223372036854775808 (2 to the power 63); no chat has it, the
  driver cannot bind it, \<open>Chat.query.get\<close> raises OverflowError, and since \<open>get_chat\<close>
  has no \<open>try\<close> the answer is 500.
\<close>

theorem huge_id_counterexample:
  "int 9223372036854775808 \<notin> Chat_id ` set (chats store_example)
   \<and> get_chat store_example 9223372036854775808 = Inl OverflowError
   \<and> http_status (get_chat store_example 9223372036854775808) = 500"
  by (simp add: get_chat_def Chat_get_def sqlite_int_def store_example_def)

text \<open>
  C8, amended. GET /chats/i for an id \<open>i\<close> below 2 to the power 63, which the store can
  bind: when a chat with the id \<open>i\<close> exists, the answer is 200 with \<open>{"messages": [...]}\<close>,
  the messages being exactly those of that chat in non-decreasing order of their creation
  time; when none exists, the answer is 404 with \<open>{"error": "Chat not found"}\<close>.
\<close>

theorem get_chat_response:
  assumes "i < 2 ^ 63"
  shows "(int i \<in> Chat_id ` set (chats db) \<longrightarrow>
      (\<exists>ms. get_chat db i
             = Inr (Response 200 (PDict [(ustr_of ''messages'', PList (map Message_to_dict ms))]))
          \<and> mset ms = mset (filter (\<lambda>m. Message_chat_id m = int i) (messages db))
          \<and> sorted (map Message_created_at ms)))
   \<and> (int i \<notin> Chat_id ` set (chats db) \<longrightarrow>
      get_chat db i
        = Inr (Response 404 (PDict [(ustr_of ''error'', PStr (ustr_of ''Chat not found''))])))"
proof -
  from assms have get: "Chat_get db (int i) = Inr (find (\<lambda>c. Chat_id c = int i) (chats db))"
    by (simp add: Chat_get_def sqlite_int_nat)
  show ?thesis
  proof (cases "find (\<lambda>c. Chat_id c = int i) (chats db)")
    case None
    then have "int i \<notin> Chat_id ` set (chats db)"
      by (auto simp add: find_None_iff)
    with None get show ?thesis by (simp add: get_chat_def)
  next
    case (Some c)
    then have c: "Chat_id c = int i" and "c \<in> set (chats db)"
      by (auto simp add: find_Some_iff)
    then have ex: "int i \<in> Chat_id ` set (chats db)" by force
    let ?ms = "order_by_asc Message_created_at (filter (\<lambda>m. Message_chat_id m = int i) (messages db))"
    have "get_chat db i
        = Inr (Response 200 (PDict [(ustr_of ''messages'', PList (map Message_to_dict ?ms))]))"
      using Some c get by (simp add: get_chat_def)
    moreover have "mset ?ms = mset (filter (\<lambda>m. Message_chat_id m = int i) (messages db))"
      by (simp add: order_by_asc_def)
    moreover have "sorted (map Message_created_at ?ms)"
      by (simp add: order_by_asc_def)
    ultimately show ?thesis using ex by blast
  qed
qed

theorem get_chat_response_witness:
  "(1::nat) < 2 ^ 63 \<and> int 1 \<in> Chat_id ` set (chats store_example)
   \<and> get_chat store_example 1 = Inr (Response 200 (PDict [(ustr_of ''messages'', PList
     [PDict [(ustr_of ''id'', PInt 3), (ustr_of ''role'', PStr (ustr_of ''assistant'')),
             (ustr_of ''content'', PStr (ustr_of ''hello'')),
             (ustr_of ''created_at'', PStr (ustr_of ''2025-03-01T09:30:00.000500''))],
      PDict [(ustr_of ''id'', PInt 1), (ustr_of ''role'', PStr (ustr_of ''user'')),
             (ustr_of ''content'', PStr (ustr_of ''hi'')),
             (ustr_of ''created_at'', PStr (ustr_of ''2025-03-01T09:30:01''))]])]))
   \<and> (7::nat) < 2 ^ 63 \<and> int 7 \<notin> Chat_id ` set (chats store_example)
   \<and> get_chat store_example 7
       = Inr (Response 404 (PDict [(ustr_of ''error'', PStr (ustr_of ''Chat not found''))]))"
proof -
  have a: "int 1 \<in> Chat_id ` set (chats store_example)"
    and b: "int 7 \<notin> Chat_id ` set (chats store_example)"
    by (simp_all add: store_example_def)
  have r1: "(1::nat) < 2 ^ 63" and r7: "(7::nat) < 2 ^ 63"
    by simp_all
  have c: "get_chat store_example 1 = Inr (Response 200 (PDict [(ustr_of ''messages'', PList
     [PDict [(ustr_of ''id'', PInt 3), (ustr_of ''role'', PStr (ustr_of ''assistant'')),
             (ustr_of ''content'', PStr (ustr_of ''hello'')),
             (ustr_of ''created_at'', PStr (ustr_of ''2025-03-01T09:30:00.000500''))],
      PDict [(ustr_of ''id'', PInt 1), (ustr_of ''role'', PStr (ustr_of ''user'')),
             (ustr_of ''content'', PStr (ustr_of ''hi'')),
             (ustr_of ''created_at'', PStr (ustr_of ''2025-03-01T09:30:01''))]])]))"
    by (simp add: get_chat_def Chat_get_def sqlite_int_def order_by_asc_def store_example_def
        to_dict_defs ustr_of_def)
  have d: "get_chat store_example 7
       = Inr (Response 404 (PDict [(ustr_of ''error'', PStr (ustr_of ''Chat not found''))]))"
    using get_chat_response [OF r7, of store_example, THEN conjunct2, THEN mp, OF b] .
  from a b c d r1 r7 show ?thesis by (simp only: simp_thms)
qed

subsection \<open>POST /chat\<close>

lemma length_ustr_of [simp]: "length (ustr_of a) = length a"
  by (simp add: ustr_of_def)

lemma has_surrogate_ustr_of [simp]: "\<not> has_surrogate (ustr_of a)"
proof -
  have lt: "of_char c < (256::nat)" for c
    by (simp add: of_char_def)
  have "\<not> (55296 \<le> (of_char c :: nat) \<and> (of_char c :: nat) \<le> 57343)" for c
    using lt [of c] by linarith
  then show ?thesis
    by (simp add: has_surrogate_def ustr_of_def list_ex_iff)
qed

lemma has_surrogate_replicate_97 [simp]: "\<not> has_surrogate (replicate n 97)"
  by (simp add: has_surrogate_def list_ex_iff)

lemma read_request_message:
  assumes "map_of kvs (ustr_of ''message'') = Some v"
    and "dict_get (PDict kvs) (ustr_of ''chat_id'') = Inr cid"
  shows "read_request (Inr (PDict kvs)) = Inr (Some (v, cid))"
proof -
  from assms(1) have "kvs \<noteq> []" by auto
  with assms show ?thesis
    by (simp add: read_request_def split: option.splits)
qed

lemma read_request_no_message:
  assumes "\<not> truthy j
           \<or> (\<exists>kvs. j = PDict kvs \<and> map_of kvs (ustr_of ''message'') = None)
           \<or> (\<exists>xs. j = PList xs \<and> PStr (ustr_of ''message'') \<notin> set xs)
           \<or> (\<exists>s. j = PStr s \<and> \<not> contains (ustr_of ''message'') s)"
  shows "read_request (Inr j) = Inr None"
  using assms by (auto simp add: read_request_def)

lemma fold_max_init: "a \<le> fold max xs (a::int)"
proof (induction xs arbitrary: a)
  case Nil
  show ?case by simp
next
  case (Cons y ys)
  have "a \<le> max y a" by simp
  also have "max y a \<le> fold max ys (max y a)" by (rule Cons.IH)
  finally show ?case by simp
qed

lemma fold_max_upper: "x \<in> set xs \<Longrightarrow> x \<le> fold max xs (a::int)"
proof (induction xs arbitrary: a)
  case Nil
  then show ?case by simp
next
  case (Cons y ys)
  show ?case
  proof (cases "x = y")
    case True
    have "y \<le> max y a" by simp
    also have "max y a \<le> fold max ys (max y a)" by (rule fold_max_init)
    finally show ?thesis using True by simp
  next
    case False
    with Cons.prems have "x \<in> set ys" by simp
    then show ?thesis using Cons.IH by simp
  qed
qed

lemma next_id_fresh: "next_id ids \<notin> set ids"
proof
  assume a: "next_id ids \<in> set ids"
  then have ne: "ids \<noteq> []" by auto
  then obtain y ys where ids: "ids = y # ys" by (cases ids) auto
  from a have "next_id ids = y \<or> next_id ids \<in> set ys"
    by (auto simp add: ids)
  then have "next_id ids \<le> fold max ys y"
    using fold_max_init [of y ys] fold_max_upper [of "next_id ids" ys y] by auto
  then show False by (simp add: next_id_def ids)
qed

lemma resolve_chat_new:
  assumes "\<not> truthy cid \<or> Chat_query_get r db cid = Inr None"
  shows "resolve_chat r db cid v
           = and_then (create_chat r db v) (\<lambda>(c, db'). Inr (c, db', 1))"
  using assms by (auto simp add: resolve_chat_def)

lemmas chat_defs = chat_def chat_try_def read_request_def resolve_chat_def create_chat_def
  chat_turn_def add_message_def next_id_def

text \<open>
  C5, as stated, fails: a JSON body without a "message" key is not always answered with
  400. The body \<open>5\<close> is JSON and has no key at all; \<open>"message" not in 5\<close> raises a
  TypeError, and the handler answers 500. The store is unchanged there too.
\<close>

theorem non_object_body_counterexample:
  "read_request (Inr (PInt 5)) = Inl TypeError
   \<and> chat runtime_example store_example (Inr (PInt 5))
       = (Response 500 (PDict [(ustr_of ''error'', PStr (ustr_of ''Internal server error'')),
                               (ustr_of ''details'', PStr (ustr_of ''TypeError''))]),
          store_example)"
  by (simp add: chat_def chat_try_def read_request_def runtime_example_def)

text \<open>
  C5, amended. When the JSON body is an object without the key "message" (or a value that
  counts as false: \<open>null\<close>, \<open>false\<close>, \<open>0\<close>, an empty string, array or object; or an array
  without the element "message"; or a string without the substring "message"), POST /chat
  answers 400 with \<open>{"error": "Missing 'message'"}\<close> and the store is unchanged.
\<close>

theorem missing_message_rejected:
  assumes "\<not> truthy j
           \<or> (\<exists>kvs. j = PDict kvs \<and> map_of kvs (ustr_of ''message'') = None)
           \<or> (\<exists>xs. j = PList xs \<and> PStr (ustr_of ''message'') \<notin> set xs)
           \<or> (\<exists>s. j = PStr s \<and> \<not> contains (ustr_of ''message'') s)"
  shows "chat r db (Inr j)
           = (Response 400 (PDict [(ustr_of ''error'',
                 PStr (ustr_of (''Missing '' @ [CHR 0x27] @ ''message'' @ [CHR 0x27])))]), db)"
  using read_request_no_message [OF assms]
  by (simp add: chat_def chat_try_def missing_message_def)

theorem missing_message_rejected_witness:
  "\<not> truthy PNone
   \<and> chat runtime_example store_example (Inr PNone)
       = (Response 400 (PDict [(ustr_of ''error'',
             PStr (ustr_of (''Missing '' @ [CHR 0x27] @ ''message'' @ [CHR 0x27])))]), store_example)
   \<and> map_of [(ustr_of ''chat_id'', PInt 1), (ustr_of ''text'', PStr (ustr_of ''hi''))] (ustr_of ''message'') = None
   \<and> chat runtime_example store_example
         (Inr (PDict [(ustr_of ''chat_id'', PInt 1), (ustr_of ''text'', PStr (ustr_of ''hi''))]))
       = (Response 400 (PDict [(ustr_of ''error'',
             PStr (ustr_of (''Missing '' @ [CHR 0x27] @ ''message'' @ [CHR 0x27])))]), store_example)"
proof -
  have a: "\<not> truthy PNone" by simp
  have b: "map_of [(ustr_of ''chat_id'', PInt 1), (ustr_of ''text'', PStr (ustr_of ''hi''))] (ustr_of ''message'') = None"
    by simp
  show ?thesis
    using a b
      missing_message_rejected [of PNone runtime_example store_example]
      missing_message_rejected [of "PDict [(ustr_of ''chat_id'', PInt 1), (ustr_of ''text'', PStr (ustr_of ''hi''))]"
        runtime_example store_example]
    by blast
qed

text \<open>
  C6. A POST /chat with a "message" and no "chat_id", or a "chat_id" that counts as false
  or resolves to no chat, that is answered with 200 has appended exactly one chat, with a
  fresh id, and exactly two messages of that chat: first one with the role "user", then
  one with the role "assistant" whose content is the reply of \<open>generate_response\<close>, which is
  also the \<open>response\<close> of the answer. When the message is a string, the title of the chat is
  its first 200 characters and the content of the first message is the string.
\<close>

theorem new_conversation_rows:
  assumes "map_of kvs (ustr_of ''message'') = Some v"
    and "dict_get (PDict kvs) (ustr_of ''chat_id'') = Inr cid"
    and "\<not> truthy cid \<or> Chat_query_get r db cid = Inr None"
    and "chat r db (Inr (PDict kvs)) = (Response 200 body, db')"
  shows "\<exists>c m1 m2 reply.
           chats db' = chats db @ [c] \<and> Chat_id c \<notin> Chat_id ` set (chats db)
         \<and> messages db' = messages db @ [m1, m2]
         \<and> Message_chat_id m1 = Chat_id c \<and> Message_role m1 = ustr_of ''user''
         \<and> Message_chat_id m2 = Chat_id c \<and> Message_role m2 = ustr_of ''assistant''
         \<and> Message_content m2 = reply
         \<and> fst (generate_response (prov r) (py_format r v)) = Inr reply
         \<and> body = PDict [(ustr_of ''chat_id'', PInt (Chat_id c)), (ustr_of ''response'', PStr reply)]
         \<and> (\<forall>s. v = PStr s \<longrightarrow> Chat_title c = Some (take 200 s) \<and> Message_content m1 = s)"
proof -
  from assms(4) obtain c db1 k where
    rc: "resolve_chat r db cid v = Inr (c, db1, k)"
    and turn: "chat_turn r c k v db1 = (Inr (Response 200 body), db')"
    by (auto simp add: chat_def chat_try_def read_request_message [OF assms(1,2)]
        split: sum.splits prod.splits)
  from rc obtain title t where
    title: "slice_200 v = Inr title" and t: "bind_text r title = Inr t"
    and c: "c = \<lparr>Chat_id = next_id (map Chat_id (chats db)), Chat_title = t,
                   Chat_created_at = Some (utcnow r 0)\<rparr>"
    and db1: "db1 = db\<lparr>chats := chats db @ [c]\<rparr>"
    by (auto simp add: resolve_chat_new [OF assms(3)] create_chat_def and_then_def Let_def
        split: sum.splits)
  from turn obtain content reply where
    content: "bind_text r v = Inr (Some content)"
    and reply: "fst (generate_response (prov r) (py_format r v)) = Inr reply"
    and body: "body = PDict [(ustr_of ''chat_id'', PInt (Chat_id c)), (ustr_of ''response'', PStr reply)]"
    and db': "messages db' = messages db1 @
        [\<lparr>Message_id = next_id (map Message_id (messages db1)), Message_chat_id = Chat_id c,
          Message_role = ustr_of ''user'', Message_content = content,
          Message_created_at = Some (utcnow r k)\<rparr>,
         \<lparr>Message_id = next_id (map Message_id (messages db1) @
             [next_id (map Message_id (messages db1))]), Message_chat_id = Chat_id c,
          Message_role = ustr_of ''assistant'', Message_content = reply,
          Message_created_at = Some (utcnow r (k + 1))\<rparr>]"
    and chats': "chats db' = chats db1"
    by (auto simp add: chat_turn_def add_message_def and_then_def
        split: sum.splits option.splits if_splits)
  have fresh: "Chat_id c \<notin> Chat_id ` set (chats db)"
    using next_id_fresh [of "map Chat_id (chats db)"] by (simp add: c)
  have str: "\<forall>s. v = PStr s \<longrightarrow> Chat_title c = Some (take 200 s) \<and> content = s"
    using title t content by (auto simp add: c split: if_splits)
  from db' chats' db1 fresh reply body str show ?thesis
    by (intro exI [of _ c]) auto
qed

lemma chat_example:
  "chat runtime_example store_example
     (Inr (PDict [(ustr_of ''message'', PStr (replicate 250 97)), (ustr_of ''chat_id'', PInt 99)]))
     = (Response 200 (PDict [(ustr_of ''chat_id'', PInt 4), (ustr_of ''response'', PStr (ustr_of ''Hello there''))]),
        store_after)"
  by (simp add: chat_defs provider_defs Chat_get_def sqlite_int_def runtime_example_def store_example_def store_after_def
      primary_ok_def hello_completion_def strip_hello Let_def)

theorem new_conversation_rows_witness:
  "map_of [(ustr_of ''message'', PStr (replicate 250 97)), (ustr_of ''chat_id'', PInt 99)] (ustr_of ''message'')
     = Some (PStr (replicate 250 97))
   \<and> dict_get (PDict [(ustr_of ''message'', PStr (replicate 250 97)), (ustr_of ''chat_id'', PInt 99)])
        (ustr_of ''chat_id'') = Inr (PInt 99)
   \<and> Chat_query_get runtime_example store_example (PInt 99) = Inr None
   \<and> chat runtime_example store_example
        (Inr (PDict [(ustr_of ''message'', PStr (replicate 250 97)), (ustr_of ''chat_id'', PInt 99)]))
       = (Response 200 (PDict [(ustr_of ''chat_id'', PInt 4),
                               (ustr_of ''response'', PStr (ustr_of ''Hello there''))]), store_after)
   \<and> (\<exists>c m1 m2.
         chats store_after = chats store_example @ [c] \<and> Chat_id c \<notin> Chat_id ` set (chats store_example)
       \<and> Chat_title c = Some (replicate 200 97)
       \<and> messages store_after = messages store_example @ [m1, m2]
       \<and> Message_chat_id m1 = Chat_id c \<and> Message_role m1 = ustr_of ''user''
       \<and> Message_content m1 = replicate 250 97
       \<and> Message_chat_id m2 = Chat_id c \<and> Message_role m2 = ustr_of ''assistant''
       \<and> fst (generate_response (prov runtime_example) (replicate 250 97)) = Inr (Message_content m2))"
proof -
  let ?kvs = "[(ustr_of ''message'', PStr (replicate 250 97)), (ustr_of ''chat_id'', PInt 99)]"
  have a: "map_of ?kvs (ustr_of ''message'') = Some (PStr (replicate 250 97))"
    and b: "dict_get (PDict ?kvs) (ustr_of ''chat_id'') = Inr (PInt 99)"
    by simp_all
  have c: "Chat_query_get runtime_example store_example (PInt 99) = Inr None"
    by (simp add: Chat_get_def sqlite_int_def store_example_def)
  then have c': "\<not> truthy (PInt 99) \<or> Chat_query_get runtime_example store_example (PInt 99) = Inr None"
    by simp
  note d = chat_example
  from new_conversation_rows [OF a b c' d] obtain c m1 m2 reply where
    "chats store_after = chats store_example @ [c]"
    "Chat_id c \<notin> Chat_id ` set (chats store_example)"
    "messages store_after = messages store_example @ [m1, m2]"
    "Message_chat_id m1 = Chat_id c" "Message_role m1 = ustr_of ''user''"
    "Message_chat_id m2 = Chat_id c" "Message_role m2 = ustr_of ''assistant''"
    "Message_content m2 = reply"
    "fst (generate_response (prov runtime_example) (py_format runtime_example (PStr (replicate 250 97)))) = Inr reply"
    "Chat_title c = Some (take 200 (replicate 250 97))" "Message_content m1 = replicate 250 97"
    by blast
  then have "\<exists>c m1 m2.
         chats store_after = chats store_example @ [c] \<and> Chat_id c \<notin> Chat_id ` set (chats store_example)
       \<and> Chat_title c = Some (replicate 200 97)
       \<and> messages store_after = messages store_example @ [m1, m2]
       \<and> Message_chat_id m1 = Chat_id c \<and> Message_role m1 = ustr_of ''user''
       \<and> Message_content m1 = replicate 250 97
       \<and> Message_chat_id m2 = Chat_id c \<and> Message_role m2 = ustr_of ''assistant''
       \<and> fst (generate_response (prov runtime_example) (replicate 250 97)) = Inr (Message_content m2)"
    by (intro exI [of _ c] exI [of _ m1] exI [of _ m2]) simp
  with a b c d show ?thesis by blast
qed

text \<open>
  C10, as stated, fails for a message that is a JSON array: it is not a string, but the
  slice \<open>user_message[:200]\<close> of a list does not raise. The request goes on to the commit
  of the new chat; here the store rejects a list as title, and the 500 carries the store's
  exception.
\<close>

theorem array_message_counterexample:
  "read_request (Inr (PDict [(ustr_of ''message'', PList [PInt 1, PInt 2])]))
     = Inr (Some (PList [PInt 1, PInt 2], PNone))
   \<and> slice_200 (PList [PInt 1, PInt 2]) = Inr (PList [PInt 1, PInt 2])
   \<and> chat runtime_example store_example (Inr (PDict [(ustr_of ''message'', PList [PInt 1, PInt 2])]))
       = (Response 500 (PDict [(ustr_of ''error'', PStr (ustr_of ''Internal server error'')),
                               (ustr_of ''details'', PStr (ustr_of ''InterfaceError''))]),
          store_example)"
  by (simp add: chat_defs runtime_example_def)

text \<open>
  C10, amended. When "message" is present and bound to a value that is not a string, and no
  "chat_id" is given or it counts as false or resolves to no chat: if the value is not an
  array (\<open>null\<close>, a boolean, an integer, an object), the slice \<open>user_message[:200]\<close>
  raises; if it is an array, the slice does not raise, and the commit of the new chat
  raises when the store rejects an array as title. In both cases POST /chat answers 500
  with \<open>{"error": "Internal server error", "details": ...}\<close> and the store is unchanged.
\<close>

theorem non_string_message_500:
  assumes "map_of kvs (ustr_of ''message'') = Some v"
    and "\<forall>s. v \<noteq> PStr s"
    and "dict_get (PDict kvs) (ustr_of ''chat_id'') = Inr cid"
    and "\<not> truthy cid \<or> Chat_query_get r db cid = Inr None"
  shows "((\<forall>xs. v \<noteq> PList xs) \<longrightarrow>
            slice_200 v = Inl TypeError
          \<and> chat r db (Inr (PDict kvs))
              = (Response 500 (PDict [(ustr_of ''error'', PStr (ustr_of ''Internal server error'')),
                                      (ustr_of ''details'', PStr (exc_str r TypeError))]), db))
       \<and> (\<forall>xs e. v = PList xs \<and> store_text r (PList (take 200 xs)) = Inl e \<longrightarrow>
            slice_200 v = Inr (PList (take 200 xs))
          \<and> chat r db (Inr (PDict kvs))
              = (Response 500 (PDict [(ustr_of ''error'', PStr (ustr_of ''Internal server error'')),
                                      (ustr_of ''details'', PStr (exc_str r e))]), db))"
proof (intro conjI impI allI)
  assume "\<forall>xs. v \<noteq> PList xs"
  with assms(2) show s: "slice_200 v = Inl TypeError"
    by (cases v) simp_all
  then have "resolve_chat r db cid v = Inl TypeError"
    by (simp add: resolve_chat_new [OF assms(4)] create_chat_def)
  then show "chat r db (Inr (PDict kvs))
      = (Response 500 (PDict [(ustr_of ''error'', PStr (ustr_of ''Internal server error'')),
                              (ustr_of ''details'', PStr (exc_str r TypeError))]), db)"
    by (simp add: chat_def chat_try_def read_request_message [OF assms(1,3)])
next
  fix xs e
  assume a: "v = PList xs \<and> store_text r (PList (take 200 xs)) = Inl e"
  then show "slice_200 v = Inr (PList (take 200 xs))" by simp
  from a have "resolve_chat r db cid v = Inl e"
    by (simp add: resolve_chat_new [OF assms(4)] create_chat_def)
  then show "chat r db (Inr (PDict kvs))
      = (Response 500 (PDict [(ustr_of ''error'', PStr (ustr_of ''Internal server error'')),
                              (ustr_of ''details'', PStr (exc_str r e))]), db)"
    by (simp add: chat_def chat_try_def read_request_message [OF assms(1,3)])
qed

theorem non_string_message_500_witness:
  "map_of [(ustr_of ''message'', PInt 5)] (ustr_of ''message'') = Some (PInt 5)
   \<and> dict_get (PDict [(ustr_of ''message'', PInt 5)]) (ustr_of ''chat_id'') = Inr PNone
   \<and> \<not> truthy PNone
   \<and> slice_200 (PInt 5) = Inl TypeError
   \<and> chat runtime_example store_example (Inr (PDict [(ustr_of ''message'', PInt 5)]))
       = (Response 500 (PDict [(ustr_of ''error'', PStr (ustr_of ''Internal server error'')),
                               (ustr_of ''details'', PStr (ustr_of ''TypeError''))]),
          store_example)
   \<and> map_of [(ustr_of ''message'', PList [PInt 1, PInt 2]), (ustr_of ''chat_id'', PInt 0)]
         (ustr_of ''message'') = Some (PList [PInt 1, PInt 2])
   \<and> dict_get (PDict [(ustr_of ''message'', PList [PInt 1, PInt 2]), (ustr_of ''chat_id'', PInt 0)])
         (ustr_of ''chat_id'') = Inr (PInt 0)
   \<and> \<not> truthy (PInt 0)
   \<and> store_text runtime_example (PList (take 200 [PInt 1, PInt 2])) = Inl (LibraryError (ustr_of ''InterfaceError''))
   \<and> chat runtime_example store_example
         (Inr (PDict [(ustr_of ''message'', PList [PInt 1, PInt 2]), (ustr_of ''chat_id'', PInt 0)]))
       = (Response 500 (PDict [(ustr_of ''error'', PStr (ustr_of ''Internal server error'')),
                               (ustr_of ''details'', PStr (ustr_of ''InterfaceError''))]),
          store_example)"
proof -
  have a: "map_of [(ustr_of ''message'', PInt 5)] (ustr_of ''message'') = Some (PInt 5)"
    and b: "\<forall>s. PInt 5 \<noteq> PStr s" and c: "\<forall>xs. PInt 5 \<noteq> PList xs"
    and d: "dict_get (PDict [(ustr_of ''message'', PInt 5)]) (ustr_of ''chat_id'') = Inr PNone"
    and e: "\<not> truthy PNone \<or> Chat_query_get runtime_example store_example PNone = Inr None"
    by simp_all
  let ?kvs = "[(ustr_of ''message'', PList [PInt 1, PInt 2]), (ustr_of ''chat_id'', PInt 0)]"
  have f: "map_of ?kvs (ustr_of ''message'') = Some (PList [PInt 1, PInt 2])"
    and g: "\<forall>s. PList [PInt 1, PInt 2] \<noteq> PStr s"
    and h: "dict_get (PDict ?kvs) (ustr_of ''chat_id'') = Inr (PInt 0)"
    and i: "\<not> truthy (PInt 0) \<or> Chat_query_get runtime_example store_example (PInt 0) = Inr None"
    by simp_all
  have j: "store_text runtime_example (PList (take 200 [PInt 1, PInt 2]))
             = Inl (LibraryError (ustr_of ''InterfaceError''))"
    by (simp add: runtime_example_def)
  have x: "exc_str runtime_example TypeError = ustr_of ''TypeError''"
    and y: "exc_str runtime_example (LibraryError (ustr_of ''InterfaceError'')) = ustr_of ''InterfaceError''"
    by (simp_all add: runtime_example_def)
  have 1: "slice_200 (PInt 5) = Inl TypeError
     \<and> chat runtime_example store_example (Inr (PDict [(ustr_of ''message'', PInt 5)]))
       = (Response 500 (PDict [(ustr_of ''error'', PStr (ustr_of ''Internal server error'')),
                               (ustr_of ''details'', PStr (ustr_of ''TypeError''))]), store_example)"
    using non_string_message_500 [OF a b d e, THEN conjunct1, THEN mp, OF c]
    by (simp only: x)
  have k: "PList [PInt 1, PInt 2] = PList [PInt 1, PInt 2]
      \<and> store_text runtime_example (PList (take 200 [PInt 1, PInt 2]))
          = Inl (LibraryError (ustr_of ''InterfaceError''))"
    using j by simp
  have 2: "chat runtime_example store_example (Inr (PDict ?kvs))
       = (Response 500 (PDict [(ustr_of ''error'', PStr (ustr_of ''Internal server error'')),
                               (ustr_of ''details'', PStr (ustr_of ''InterfaceError''))]), store_example)"
    using non_string_message_500 [OF f g h i, THEN conjunct2, THEN spec, THEN spec, THEN mp, OF k]
    by (simp only: y)
  from 1 2 a d f h j show ?thesis by (simp only: truthy.simps simp_thms)
qed

end
